theory Spec2Isabelle
  imports Main
begin

section \<open>Data model (types.ts and the JSON tables)\<close>

text \<open>
  The application keeps three tables in memory (\<open>usersData.users\<close>,
  \<open>productsData.products\<close>, \<open>reportsData.reports\<close>) and a chat log. Every mock API
  function reads and writes them directly, so each function below takes the store and
  returns the store it leaves behind together with its result; a rejected promise or a
  thrown error is an \<open>Inl\<close> value.

  Conventions of the embedding:
  \<^item> A stored date string is kept as what \<open>new Date(s)\<close> makes of it: \<open>ISO t\<close> with
    \<open>t\<close> the time value in epoch milliseconds, or \<open>Unparsable\<close> (Invalid Date, whose
    comparisons are all false). \<open>d.toISOString()\<close> of a valid date with time value
    \<open>t\<close> is stored as \<open>ISO t\<close>.
  \<^item> The clock (\<open>new Date()\<close>) is an argument \<open>now\<close>, in epoch milliseconds. It is the
    present time, far from the limits of \<open>Date\<close>, so every date computed from it is a
    valid one.
  \<^item> An amount (\<open>number\<close> in the source, an IEEE double) is a \<open>jsnum\<close>: a whole
    number, NaN or an infinity. Prices are written by \<open>parseInt\<close> and balances start
    whole, so no fraction arises; sums and differences are rounded as the double
    arithmetic rounds them.
  \<^item> A \<open>string\<close> is a list of code units below 256.
  \<^item> An optional field \<open>f?: T\<close> is a \<open>T option\<close>; \<open>None\<close> is \<open>undefined\<close>.
\<close>

datatype isodate = ISO int | Unparsable

datatype jsnum = Fin int | NaN | PosInf | NegInf

record user =
  username :: string
  password :: string
  bio :: "string option"
  isAdmin :: "bool option"
  canLogin :: bool
  banExpiry :: "isodate option"
  balance :: jsnum

text \<open>The object left by \<open>const { password: _, ...userWithoutPassword } = u\<close>.\<close>

record public_user =
  pu_username :: string
  pu_bio :: "string option"
  pu_isAdmin :: "bool option"
  pu_canLogin :: bool
  pu_banExpiry :: "isodate option"
  pu_balance :: jsnum

record product =
  pid :: string
  title :: string
  description :: string
  price :: jsnum
  imageUrl :: string
  author :: string
  createdAt :: isodate
  purchasedBy :: "string option"
  purchasedAt :: "isodate option"
  isDeleted :: "bool option"

datatype report_type = UserReport | PostReport | ChatReport | ProductReport

record report =
  rid :: string
  rtype :: report_type
  contentId :: "string option"
  reportedUser :: string
  reason :: string
  reportedBy :: string
  reportedAt :: isodate

record chat_message =
  mid :: string
  content :: string
  sender :: string
  sentAt :: isodate
  isPrivate :: "bool option"
  recipient :: "string option"

record store =
  users :: "user list"
  products :: "product list"
  reports :: "report list"
  messages :: "chat_message list"

section \<open>JavaScript helpers\<close>

text \<open>\<open>Array.prototype.findIndex\<close>: the first index whose element passes, \<open>None\<close> for \<open>-1\<close>.
  \<open>Array.prototype.find\<close> is \<^const>\<open>List.find\<close>.\<close>

fun findIndex :: "('a \<Rightarrow> bool) \<Rightarrow> 'a list \<Rightarrow> nat option" where
  "findIndex P [] = None"
| "findIndex P (x # xs) = (if P x then Some 0 else map_option Suc (findIndex P xs))"

text \<open>Truthiness of an optional string (\<open>if (product.purchasedBy)\<close>): \<open>undefined\<close> and the
  empty string are falsy.\<close>

definition truthy_str :: "string option \<Rightarrow> bool" where
  "truthy_str v = (case v of None \<Rightarrow> False | Some s \<Rightarrow> s \<noteq> [])"

text \<open>Truthiness of an optional boolean (\<open>user?.isAdmin\<close>, \<open>!p.isDeleted\<close>).\<close>

definition truthy_bool :: "bool option \<Rightarrow> bool" where
  "truthy_bool v = (case v of None \<Rightarrow> False | Some b \<Rightarrow> b)"

definition msPerDay :: int where
  "msPerDay = 24 * 60 * 60 * 1000"

text \<open>The time zone of the browser: \<open>toLocal\<close> is LocalTime of the language
  definition (the local clock reading at a moment), \<open>toUTC\<close> is UTC (the moment of a
  local clock reading).\<close>

record zone =
  toLocal :: "int \<Rightarrow> int"
  toUTC :: "int \<Rightarrow> int"

text \<open>\<open>d.setDate(d.getDate() + n)\<close> for a whole \<open>n\<close>: the local clock reading is moved by
  \<open>n\<close> calendar days and read back as a moment. Across a daylight-saving change the
  result is not \<open>n\<close> times 24 hours away.\<close>

definition addDays :: "zone \<Rightarrow> int \<Rightarrow> int \<Rightarrow> int" where
  "addDays z t n = toUTC z (toLocal z t + n * msPerDay)"

text \<open>A zone whose clocks are a fixed \<open>off\<close> milliseconds ahead of UTC.\<close>

definition fixed_zone :: "int \<Rightarrow> zone" where
  "fixed_zone off = \<lparr> toLocal = (\<lambda>t. t + off), toUTC = (\<lambda>l. l - off) \<rparr>"

text \<open>Double arithmetic on whole numbers. All whole numbers up to \<open>maxExact\<close> (2 to the
  53) in magnitude are doubles; beyond, \<open>round_double\<close> keeps 53 significant bits,
  rounding to the nearest and a tie to the even one, and overflows to an infinity from
  2 to the 1024. \<open>bitlen\<close> is the number of binary digits. Signed zeros are not told
  apart.\<close>

definition maxExact :: int where
  "maxExact = 9007199254740992"

function bitlen :: "int \<Rightarrow> nat" where
  "bitlen n = (if n \<le> 0 then 0 else Suc (bitlen (n div 2)))"
  by pat_completeness auto
termination
  by (relation "measure nat") auto

declare bitlen.simps [simp del]

definition round_double :: "int \<Rightarrow> jsnum" where
  "round_double x =
     (if \<bar>x\<bar> \<le> maxExact then Fin x
      else
        let m = \<bar>x\<bar>;
            q = 2 ^ (bitlen m - 53);
            lo = (m div q) * q;
            r = m mod q;
            m' = (if 2 * r < q then lo
                  else if q < 2 * r then lo + q
                  else if even (m div q) then lo else lo + q)
        in if 2 ^ 1024 \<le> m' then (if 0 < x then PosInf else NegInf)
           else Fin (sgn x * m'))"

fun js_neg :: "jsnum \<Rightarrow> jsnum" where
  "js_neg (Fin a) = Fin (- a)"
| "js_neg NaN = NaN"
| "js_neg PosInf = NegInf"
| "js_neg NegInf = PosInf"

text \<open>\<open>a + b\<close>, \<open>a - b\<close> and \<open>a < b\<close> on numbers.\<close>

fun js_add :: "jsnum \<Rightarrow> jsnum \<Rightarrow> jsnum" where
  "js_add (Fin a) (Fin b) = round_double (a + b)"
| "js_add NaN _ = NaN"
| "js_add _ NaN = NaN"
| "js_add PosInf NegInf = NaN"
| "js_add NegInf PosInf = NaN"
| "js_add PosInf _ = PosInf"
| "js_add _ PosInf = PosInf"
| "js_add NegInf _ = NegInf"
| "js_add _ NegInf = NegInf"

definition js_sub :: "jsnum \<Rightarrow> jsnum \<Rightarrow> jsnum" where
  "js_sub a b = js_add a (js_neg b)"

fun js_lt :: "jsnum \<Rightarrow> jsnum \<Rightarrow> bool" where
  "js_lt (Fin a) (Fin b) = (a < b)"
| "js_lt NegInf (Fin b) = True"
| "js_lt NegInf PosInf = True"
| "js_lt (Fin a) PosInf = True"
| "js_lt _ _ = False"

text \<open>\<open>Math.ceil(a / b)\<close> for a positive divisor, on exact integers.\<close>

definition ceil_div :: "int \<Rightarrow> int \<Rightarrow> int" where
  "ceil_div a b = - ((- a) div b)"

definition strip_password :: "user \<Rightarrow> public_user" where
  "strip_password u =
     \<lparr> pu_username = username u, pu_bio = bio u, pu_isAdmin = isAdmin u,
       pu_canLogin = canLogin u, pu_banExpiry = banExpiry u, pu_balance = balance u \<rparr>"

definition named :: "string \<Rightarrow> user \<Rightarrow> bool" where
  "named n u = (username u = n)"

text \<open>The stored balance of the user a name refers to: the record \<open>find\<close> returns.\<close>

definition balance_of :: "user list \<Rightarrow> string \<Rightarrow> jsnum option" where
  "balance_of us n = map_option balance (List.find (named n) us)"

section \<open>Marketplace API (ProductDetail.tsx)\<close>

datatype shop_error =
    ProductNotFound
  | NotAuthorized
  | AlreadySold
  | BuyerNotFound
  | InsufficientBalance
  | TypeError

definition is_admin_name :: "user list \<Rightarrow> string \<Rightarrow> bool" where
  "is_admin_name us n =
     (case List.find (named n) us of None \<Rightarrow> False | Some u \<Rightarrow> truthy_bool (isAdmin u))"

text \<open>\<open>api.purchaseProduct(productId, username)\<close>. The checks come first and reject
  without writing; then the buyer is debited, the seller (if found) credited, and the
  product stamped. The balance returned is read back from the table after both
  writes.\<close>

definition purchaseProduct ::
  "store \<Rightarrow> string \<Rightarrow> string \<Rightarrow> int \<Rightarrow> store \<times> (shop_error + product \<times> jsnum)" where
  "purchaseProduct st productId uname now =
     (case findIndex (\<lambda>p. pid p = productId) (products st) of
        None \<Rightarrow> (st, Inl ProductNotFound)
      | Some productIndex \<Rightarrow>
          let prd = products st ! productIndex in
          if truthy_str (purchasedBy prd) then (st, Inl AlreadySold)
          else
            (case List.find (named uname) (users st) of
               None \<Rightarrow> (st, Inl BuyerNotFound)
             | Some buyer \<Rightarrow>
                 if js_lt (balance buyer) (price prd) then (st, Inl InsufficientBalance)
                 else
                   (case findIndex (named uname) (users st) of
                      None \<Rightarrow> (st, Inl TypeError)
                    | Some buyerIndex \<Rightarrow>
                        let us1 = (users st)[buyerIndex :=
                                     (users st ! buyerIndex)
                                       \<lparr>balance := js_sub (balance (users st ! buyerIndex))
                                                          (price prd)\<rparr>];
                            us2 = (case findIndex (named (author prd)) us1 of
                                     None \<Rightarrow> us1
                                   | Some sellerIndex \<Rightarrow>
                                       us1[sellerIndex :=
                                         (us1 ! sellerIndex)
                                           \<lparr>balance := js_add (balance (us1 ! sellerIndex))
                                                              (price prd)\<rparr>]);
                            updatedProduct =
                              prd\<lparr>purchasedBy := Some uname, purchasedAt := Some (ISO now)\<rparr>;
                            st' = st\<lparr>users := us2,
                                      products := (products st)[productIndex := updatedProduct]\<rparr>
                        in (st', Inr (updatedProduct, balance (us2 ! buyerIndex))))))"

text \<open>\<open>api.cleanupPurchasedProducts()\<close>: the \<open>map\<close> callback, and the \<open>updated\<close> flag it
  raises. \<open>new Date(p.purchasedAt)\<close> of an unparsable string is Invalid Date, and
  \<open>now > oneDayLater\<close> is then false.\<close>

definition sweepable :: "int \<Rightarrow> product \<Rightarrow> bool" where
  "sweepable now p =
     (case purchasedAt p of
        Some (ISO t) \<Rightarrow> now > t + msPerDay \<and> \<not> truthy_bool (isDeleted p)
      | _ \<Rightarrow> False)"

definition cleanup_one :: "int \<Rightarrow> product \<Rightarrow> product" where
  "cleanup_one now p = (if sweepable now p then p\<lparr>isDeleted := Some True\<rparr> else p)"

definition cleanupPurchasedProducts :: "store \<Rightarrow> int \<Rightarrow> store \<times> bool" where
  "cleanupPurchasedProducts st now =
     (st\<lparr>products := map (cleanup_one now) (products st)\<rparr>,
      list_ex (sweepable now) (products st))"

text \<open>\<open>Partial<Product>\<close>: each key is absent (\<open>None\<close>) or carries a value; for the
  optional fields of a product the value carried may itself be \<open>undefined\<close>.\<close>

record product_patch =
  new_pid :: "string option"
  new_title :: "string option"
  new_description :: "string option"
  new_price :: "jsnum option"
  new_imageUrl :: "string option"
  new_author :: "string option"
  new_createdAt :: "isodate option"
  new_purchasedBy :: "string option option"
  new_purchasedAt :: "isodate option option"
  new_isDeleted :: "bool option option"

definition override :: "'a \<Rightarrow> 'a option \<Rightarrow> 'a" where
  "override old new = (case new of None \<Rightarrow> old | Some v \<Rightarrow> v)"

text \<open>The spread \<open>{ ...product, ...updatedData }\<close>.\<close>

definition apply_patch :: "product \<Rightarrow> product_patch \<Rightarrow> product" where
  "apply_patch p u =
     \<lparr> pid = override (pid p) (new_pid u),
       title = override (title p) (new_title u),
       description = override (description p) (new_description u),
       price = override (price p) (new_price u),
       imageUrl = override (imageUrl p) (new_imageUrl u),
       author = override (author p) (new_author u),
       createdAt = override (createdAt p) (new_createdAt u),
       purchasedBy = override (purchasedBy p) (new_purchasedBy u),
       purchasedAt = override (purchasedAt p) (new_purchasedAt u),
       isDeleted = override (isDeleted p) (new_isDeleted u) \<rparr>"

text \<open>\<open>api.updateProduct(productId, updatedData, username)\<close>.\<close>

definition updateProduct ::
  "store \<Rightarrow> string \<Rightarrow> product_patch \<Rightarrow> string \<Rightarrow> store \<times> (shop_error + product)" where
  "updateProduct st productId updatedData uname =
     (case findIndex (\<lambda>p. pid p = productId) (products st) of
        None \<Rightarrow> (st, Inl ProductNotFound)
      | Some productIndex \<Rightarrow>
          let prd = products st ! productIndex in
          if author prd \<noteq> uname \<and> \<not> is_admin_name (users st) uname
          then (st, Inl NotAuthorized)
          else
            let updatedProduct = apply_patch prd updatedData
            in (st\<lparr>products := (products st)[productIndex := updatedProduct]\<rparr>,
                Inr updatedProduct))"

text \<open>The object \<open>handleUpdate\<close> builds from the edit form and hands to
  \<open>api.updateProduct\<close>: the sanitized title, description and image URL and the parsed
  price, and no other key. The \<open>api\<close> object is private to its module, so this is the only
  patch \<open>updateProduct\<close> is ever called with.\<close>

definition form_patch :: "string \<Rightarrow> string \<Rightarrow> jsnum \<Rightarrow> string \<Rightarrow> product_patch" where
  "form_patch t d pr img =
     \<lparr> new_pid = None, new_title = Some t, new_description = Some d, new_price = Some pr,
       new_imageUrl = Some img, new_author = None, new_createdAt = None,
       new_purchasedBy = None, new_purchasedAt = None, new_isDeleted = None \<rparr>"

text \<open>\<open>api.deleteProduct(productId, username)\<close>: a soft delete.\<close>

definition deleteProduct ::
  "store \<Rightarrow> string \<Rightarrow> string \<Rightarrow> store \<times> (shop_error + product)" where
  "deleteProduct st productId uname =
     (case findIndex (\<lambda>p. pid p = productId) (products st) of
        None \<Rightarrow> (st, Inl ProductNotFound)
      | Some productIndex \<Rightarrow>
          let prd = products st ! productIndex in
          if author prd \<noteq> uname \<and> \<not> is_admin_name (users st) uname
          then (st, Inl NotAuthorized)
          else
            let updatedProduct = prd\<lparr>isDeleted := Some True\<rparr>
            in (st\<lparr>products := (products st)[productIndex := updatedProduct]\<rparr>,
                Inr updatedProduct))"

section \<open>Listing creation (ProductForm)\<close>

text \<open>The \<open>productData\<close> object \<open>handleSubmit\<close> builds, and \<open>api.createProduct\<close>, which
  adds the generated id (\<open>crypto.randomUUID()\<close>, an argument here), the creation time and
  \<open>isDeleted: false\<close> and pushes the row.\<close>

record product_data =
  d_title :: string
  d_description :: string
  d_price :: jsnum
  d_imageUrl :: string
  d_author :: string

definition createProduct :: "store \<Rightarrow> product_data \<Rightarrow> string \<Rightarrow> int \<Rightarrow> store \<times> product" where
  "createProduct st productData uuid now =
     (let newProduct =
            \<lparr> pid = uuid, title = d_title productData,
              description = d_description productData, price = d_price productData,
              imageUrl = d_imageUrl productData, author = d_author productData,
              createdAt = ISO now, purchasedBy = None, purchasedAt = None,
              isDeleted = Some False \<rparr>
      in (st\<lparr>products := products st @ [newProduct]\<rparr>, newProduct))"

section \<open>Authentication API (AuthContext.tsx)\<close>

datatype auth_error = InvalidCredentials | Banned int | UserNotFound

text \<open>\<open>new Date(s || '').getTime()\<close> of a stored optional date string: \<open>None\<close> is NaN.\<close>

definition date_value :: "isodate option \<Rightarrow> int option" where
  "date_value d = (case d of Some (ISO t) \<Rightarrow> Some t | _ \<Rightarrow> None)"

text \<open>\<open>api.login(username, password)\<close>. \<open>find\<close> returns the stored object itself, so the
  two assignments that lift an expired ban write to the table row at the index of the
  first match. The clock is read twice (\<open>now\<close> for the comparison, \<open>now'\<close> for the
  number of days in the message); the token is what \<open>generateAuthToken()\<close> drew.\<close>

definition login ::
  "store \<Rightarrow> string \<Rightarrow> string \<Rightarrow> int \<Rightarrow> int \<Rightarrow> string
     \<Rightarrow> store \<times> (auth_error + public_user \<times> string)" where
  "login st uname pw now now' token =
     (case findIndex (named uname) (users st) of
        None \<Rightarrow> (st, Inl InvalidCredentials)
      | Some i \<Rightarrow>
          let foundUser = users st ! i in
          if password foundUser \<noteq> pw then (st, Inl InvalidCredentials)
          else if \<not> canLogin foundUser then
            (case date_value (banExpiry foundUser) of
               Some e \<Rightarrow>
                 if e > now then (st, Inl (Banned (ceil_div (e - now') msPerDay)))
                 else
                   let lifted = foundUser\<lparr>canLogin := True, banExpiry := None\<rparr>
                   in (st\<lparr>users := (users st)[i := lifted]\<rparr>,
                       Inr (strip_password lifted, token))
             | None \<Rightarrow>
                 let lifted = foundUser\<lparr>canLogin := True, banExpiry := None\<rparr>
                 in (st\<lparr>users := (users st)[i := lifted]\<rparr>,
                     Inr (strip_password lifted, token)))
          else (st, Inr (strip_password foundUser, token)))"

text \<open>The rule of the data model that ties the two ban fields: a user who may log in
  carries no expiry date. Registration creates rows that obey it, and every write to
  \<open>canLogin\<close> or \<open>banExpiry\<close> in the source writes both fields together (\<open>false\<close> with a
  date, \<open>true\<close> with \<open>undefined\<close>).\<close>

definition ban_consistent :: "user \<Rightarrow> bool" where
  "ban_consistent u = (canLogin u \<longrightarrow> banExpiry u = None)"

text \<open>\<open>api.getUser(username)\<close>.\<close>

definition getUser :: "user list \<Rightarrow> string \<Rightarrow> auth_error + public_user" where
  "getUser us uname =
     (case List.find (named uname) us of
        None \<Rightarrow> Inl UserNotFound
      | Some foundUser \<Rightarrow> Inr (strip_password foundUser))"

section \<open>Session restoration (AuthContext.tsx, \<open>initializeAuth\<close>)\<close>

text \<open>What \<open>JSON.parse\<close> can return, and the \<open>auth_session\<close> entry of \<open>localStorage\<close>: no
  entry, a text \<open>JSON.parse\<close> throws on (the empty text included), or a text that parses
  to a value. Numbers are kept as integers; only their being zero matters here.\<close>

datatype json =
    JNull
  | JBool bool
  | JNum int
  | JStr string
  | JArr "json list"
  | JObj "(string \<times> json) list"

datatype session_item = NoItem | BadJson | Json json

text \<open>\<open>storage.get\<close>: \<open>null\<close> for a missing entry and, through its own \<open>catch\<close>, for one
  that does not parse.\<close>

definition storage_get :: "session_item \<Rightarrow> json" where
  "storage_get item = (case item of NoItem \<Rightarrow> JNull | BadJson \<Rightarrow> JNull | Json v \<Rightarrow> v)"

text \<open>\<open>storage.remove\<close>.\<close>

definition storage_remove :: "session_item \<Rightarrow> session_item" where
  "storage_remove item = NoItem"

text \<open>Property access \<open>v.key\<close> on a parsed value (\<open>None\<close> is \<open>undefined\<close>; of a repeated
  key \<open>JSON.parse\<close> keeps the last), and truthiness.\<close>

definition js_field :: "json \<Rightarrow> string \<Rightarrow> json option" where
  "js_field v k = (case v of JObj kvs \<Rightarrow> map_of (rev kvs) k | _ \<Rightarrow> None)"

definition truthy_json :: "json \<Rightarrow> bool" where
  "truthy_json v =
     (case v of
        JNull \<Rightarrow> False
      | JBool b \<Rightarrow> b
      | JNum n \<Rightarrow> n \<noteq> 0
      | JStr s \<Rightarrow> s \<noteq> []
      | JArr _ \<Rightarrow> True
      | JObj _ \<Rightarrow> True)"

definition truthy_field :: "json \<Rightarrow> string \<Rightarrow> bool" where
  "truthy_field v k = (case js_field v k of None \<Rightarrow> False | Some w \<Rightarrow> truthy_json w)"

text \<open>\<open>api.getUser(sessionData.userId)\<close>: \<open>u.username === userId\<close> holds only for a string
  equal to the name.\<close>

definition getUser_json :: "user list \<Rightarrow> json \<Rightarrow> auth_error + public_user" where
  "getUser_json us userId =
     (case userId of JStr n \<Rightarrow> getUser us n | _ \<Rightarrow> Inl UserNotFound)"

text \<open>\<open>initializeAuth\<close>, from the state \<open>user = null\<close>: the entry it leaves in storage and
  the current user it sets. A rejection of \<open>api.getUser\<close> lands in the \<open>catch\<close>, which
  removes the entry.\<close>

definition initializeAuth :: "user list \<Rightarrow> session_item \<Rightarrow> session_item \<times> public_user option" where
  "initializeAuth us item =
     (let sessionData = storage_get item in
      if truthy_json sessionData \<and> truthy_field sessionData ''token''
      then
        (case js_field sessionData ''userId'' of
           None \<Rightarrow> (item, None)
         | Some userId \<Rightarrow>
             if truthy_json userId then
               (case getUser_json us userId of
                  Inr userData \<Rightarrow> (item, Some userData)
                | Inl err \<Rightarrow> (storage_remove item, None))
             else (item, None))
      else (item, None))"

section \<open>User moderation API (UserProfile)\<close>

datatype admin_error = Forbidden | OutOfRange | TargetNotFound

text \<open>\<open>api.banUser(username, days, adminUsername)\<close>. Its caller passes
  \<open>parseInt(banDuration)\<close>: an integer, or NaN (\<open>None\<close>).\<close>

definition banUser ::
  "zone \<Rightarrow> store \<Rightarrow> string \<Rightarrow> int option \<Rightarrow> string \<Rightarrow> int
     \<Rightarrow> store \<times> (admin_error + user \<times> int)" where
  "banUser z st uname days adminUsername now =
     (if \<not> is_admin_name (users st) adminUsername then (st, Inl Forbidden)
      else
        (case days of
           None \<Rightarrow> (st, Inl OutOfRange)
         | Some d \<Rightarrow>
             if d \<le> 0 \<or> d > 365 then (st, Inl OutOfRange)
             else
               (case findIndex (named uname) (users st) of
                  None \<Rightarrow> (st, Inl TargetNotFound)
                | Some userIndex \<Rightarrow>
                    let expiry = addDays z now d;
                        banned = (users st ! userIndex)
                                   \<lparr>canLogin := False, banExpiry := Some (ISO expiry)\<rparr>
                    in (st\<lparr>users := (users st)[userIndex := banned]\<rparr>,
                        Inr (banned, expiry)))))"

section \<open>Admin dashboard (AdminDashboard.tsx)\<close>

text \<open>The dashboard holds its own copy \<open>reports\<close> of the report table (component state,
  taken from the table when the page is opened); each handler filters that copy and
  writes the result over the table (\<open>updateReportsData\<close>) and back into the state. A
  handler returns the store and the component's copy. \<open>verifyAdminAndExecute\<close> runs the
  action only for a current user whose \<open>isAdmin\<close> is truthy. The ban duration is the
  value of a select box offering 1, 3, 7 and 30.\<close>

definition verifyAdmin :: "public_user option \<Rightarrow> bool" where
  "verifyAdmin viewer = (case viewer of None \<Rightarrow> False | Some u \<Rightarrow> truthy_bool (pu_isAdmin u))"

definition handleBanUser ::
  "zone \<Rightarrow> store \<Rightarrow> report list \<Rightarrow> public_user option \<Rightarrow> int \<Rightarrow> int \<Rightarrow> string
     \<Rightarrow> store \<times> report list" where
  "handleBanUser z st view viewer banDuration now uname =
     (if \<not> verifyAdmin viewer then (st, view)
      else
        let expiry = addDays z now banDuration;
            us' = (case findIndex (named uname) (users st) of
                     None \<Rightarrow> users st
                   | Some userIndex \<Rightarrow>
                       (users st)[userIndex :=
                          (users st ! userIndex)
                            \<lparr>canLogin := False, banExpiry := Some (ISO expiry)\<rparr>]);
            updatedReports = filter (\<lambda>r. reportedUser r \<noteq> uname) view
        in (st\<lparr>users := us', reports := updatedReports\<rparr>, updatedReports))"

text \<open>\<open>handleDeleteContent(report)\<close>: a chat report removes the message
  (\<open>splice(messageIndex, 1)\<close>), a product report soft-deletes the product; when the
  content is not found the handler returns before touching the reports.\<close>

definition handleDeleteContent ::
  "store \<Rightarrow> report list \<Rightarrow> public_user option \<Rightarrow> report \<Rightarrow> store \<times> report list" where
  "handleDeleteContent st view viewer rep =
     (if \<not> verifyAdmin viewer then (st, view)
      else
        let updatedReports = filter (\<lambda>r. rid r \<noteq> rid rep) view in
        (case rtype rep of
           ChatReport \<Rightarrow>
             (case findIndex (\<lambda>m. Some (mid m) = contentId rep) (messages st) of
                None \<Rightarrow> (st, view)
              | Some messageIndex \<Rightarrow>
                  (st\<lparr>messages := take messageIndex (messages st)
                                      @ drop (Suc messageIndex) (messages st),
                      reports := updatedReports\<rparr>, updatedReports))
         | ProductReport \<Rightarrow>
             (case findIndex (\<lambda>p. Some (pid p) = contentId rep) (products st) of
                None \<Rightarrow> (st, view)
              | Some productIndex \<Rightarrow>
                  (st\<lparr>products := (products st)[productIndex :=
                                      (products st ! productIndex)\<lparr>isDeleted := Some True\<rparr>],
                      reports := updatedReports\<rparr>, updatedReports))
         | _ \<Rightarrow> (st\<lparr>reports := updatedReports\<rparr>, updatedReports)))"

text \<open>\<open>handleDismissReport(reportId)\<close>.\<close>

definition handleDismissReport ::
  "store \<Rightarrow> report list \<Rightarrow> public_user option \<Rightarrow> string \<Rightarrow> store \<times> report list" where
  "handleDismissReport st view viewer reportId =
     (if \<not> verifyAdmin viewer then (st, view)
      else
        let updatedReports = filter (\<lambda>r. rid r \<noteq> reportId) view
        in (st\<lparr>reports := updatedReports\<rparr>, updatedReports))"

section \<open>Reporting (UserProfile and ProductDetail)\<close>

text \<open>\<open>String.prototype.trim\<close>: among the code units below 256 the white space and
  line terminators are tab, line feed, vertical tab, form feed, carriage return, space
  and the no-break space. \<open>sanitizeText\<close> has \<open>DOMPurify.sanitize\<close> as a parameter.\<close>

definition is_space :: "char \<Rightarrow> bool" where
  "is_space c =
     (c \<in> set [CHR '' '', CHR 0x09, CHR 0x0A, CHR 0x0B, CHR 0x0C, CHR 0x0D, CHR 0xA0])"

definition trim :: "string \<Rightarrow> string" where
  "trim s = rev (dropWhile is_space (rev (dropWhile is_space s)))"

definition sanitizeText :: "(string \<Rightarrow> string) \<Rightarrow> string \<Rightarrow> string" where
  "sanitizeText sanitize text = (if text = [] then [] else sanitize text)"

datatype report_error =
    NotLoggedIn
  | OwnContent
  | EmptyReason
  | TooShort
  | ReportedProductNotFound

text \<open>\<open>api.reportUser(reportData)\<close> of the user profile page.\<close>

definition reportUser ::
  "store \<Rightarrow> string \<Rightarrow> string \<Rightarrow> string \<Rightarrow> string \<Rightarrow> int \<Rightarrow> store \<times> (report_error + unit)" where
  "reportUser st uname rsn reporterUsername uuid now =
     (if rsn = [] \<or> length (trim rsn) < 5 then (st, Inl TooShort)
      else
        (st\<lparr>reports := reports st @
              [\<lparr> rid = uuid, rtype = UserReport, contentId = None, reportedUser = uname,
                 reason = rsn, reportedBy = reporterUsername, reportedAt = ISO now \<rparr>]\<rparr>,
         Inr ()))"

text \<open>\<open>handleReport\<close> of the user profile page, for the profile \<open>uname\<close> of the route.\<close>

definition handleReport_user ::
  "(string \<Rightarrow> string) \<Rightarrow> store \<Rightarrow> public_user option \<Rightarrow> string \<Rightarrow> string \<Rightarrow> string \<Rightarrow> int
     \<Rightarrow> store \<times> (report_error + unit)" where
  "handleReport_user sanitize st viewer uname reportReason uuid now =
     (case viewer of
        None \<Rightarrow> (st, Inl NotLoggedIn)
      | Some u \<Rightarrow>
          if trim reportReason = [] then (st, Inl EmptyReason)
          else if length (trim reportReason) < 5 then (st, Inl TooShort)
          else reportUser st uname (sanitizeText sanitize (trim reportReason))
                 (pu_username u) uuid now)"

text \<open>\<open>api.reportProduct(productId, reason, username)\<close> of the product page.\<close>

definition reportProduct ::
  "store \<Rightarrow> string \<Rightarrow> string \<Rightarrow> string \<Rightarrow> string \<Rightarrow> int \<Rightarrow> store \<times> (report_error + unit)" where
  "reportProduct st productId rsn uname uuid now =
     (case List.find (\<lambda>p. pid p = productId) (products st) of
        None \<Rightarrow> (st, Inl ReportedProductNotFound)
      | Some prd \<Rightarrow>
          (st\<lparr>reports := reports st @
                [\<lparr> rid = uuid, rtype = ProductReport, contentId = Some productId,
                   reportedUser = author prd, reason = rsn, reportedBy = uname,
                   reportedAt = ISO now \<rparr>]\<rparr>,
           Inr ()))"

text \<open>\<open>handleReport\<close> of the product page, for the product \<open>shown\<close> on it (component
  state) with id \<open>productId\<close> (the route).\<close>

definition handleReport_product ::
  "(string \<Rightarrow> string) \<Rightarrow> store \<Rightarrow> public_user option \<Rightarrow> product option \<Rightarrow> string \<Rightarrow> string
     \<Rightarrow> string \<Rightarrow> int \<Rightarrow> store \<times> (report_error + unit)" where
  "handleReport_product sanitize st viewer shown productId reportReason uuid now =
     (case viewer of
        None \<Rightarrow> (st, Inl NotLoggedIn)
      | Some u \<Rightarrow>
          if map_option author shown = Some (pu_username u) then (st, Inl OwnContent)
          else if trim reportReason = [] then (st, Inl EmptyReason)
          else if length reportReason < 5 then (st, Inl TooShort)
          else reportProduct st productId (sanitizeText sanitize (trim reportReason))
                 (pu_username u) uuid now)"

section \<open>The operations that touch products\<close>

text \<open>The calls through which the pages reach the product table: the listing form
  (\<open>createProduct\<close>), the edit form (\<open>updateProduct\<close> with the patch the form builds),
  the delete button (\<open>deleteProduct\<close>), the purchase button, the periodic sweep, and the
  dashboard's content deletion. \<open>run\<close> applies a sequence of them.\<close>

datatype operation =
    CreateListing product_data string int
  | UpdateListing string string string jsnum string string
  | SoftDeleteListing string string
  | Purchase string string int
  | SweepExpiredSales int
  | AdminDeleteContent "report list" "public_user option" report

fun apply_operation :: "store \<Rightarrow> operation \<Rightarrow> store" where
  "apply_operation st (CreateListing productData uuid now) =
     fst (createProduct st productData uuid now)"
| "apply_operation st (UpdateListing productId t d pr img actor) =
     fst (updateProduct st productId (form_patch t d pr img) actor)"
| "apply_operation st (SoftDeleteListing productId actor) =
     fst (deleteProduct st productId actor)"
| "apply_operation st (Purchase productId buyer now) =
     fst (purchaseProduct st productId buyer now)"
| "apply_operation st (SweepExpiredSales now) =
     fst (cleanupPurchasedProducts st now)"
| "apply_operation st (AdminDeleteContent view viewer rep) =
     fst (handleDeleteContent st view viewer rep)"

definition run :: "store \<Rightarrow> operation list \<Rightarrow> store" where
  "run st ops = foldl apply_operation st ops"

section \<open>Example data\<close>

text \<open>A small store used to run the functions on concrete input: two ordinary users, an
  administrator, and two unsold listings.\<close>

definition alice :: user where
  "alice = \<lparr> username = ''alice'', password = ''pw-alice'', bio = None, isAdmin = None,
              canLogin = True, banExpiry = None, balance = Fin 5000000 \<rparr>"

definition bob :: user where
  "bob = \<lparr> username = ''bob'', password = ''pw-bob'', bio = None, isAdmin = None,
            canLogin = True, banExpiry = None, balance = Fin 0 \<rparr>"

definition root :: user where
  "root = \<lparr> username = ''root'', password = ''pw-root'', bio = None, isAdmin = Some True,
             canLogin = True, banExpiry = None, balance = Fin 0 \<rparr>"

definition lamp :: product where
  "lamp = \<lparr> pid = ''p1'', title = ''lamp'', description = ''desk lamp'', price = Fin 100000,
             imageUrl = ''http://x/lamp.png'', author = ''bob'', createdAt = ISO 0,
             purchasedBy = None, purchasedAt = None, isDeleted = Some False \<rparr>"

definition vase :: product where
  "vase = \<lparr> pid = ''p2'', title = ''vase'', description = ''blue vase'', price = Fin 30,
             imageUrl = ''http://x/vase.png'', author = ''alice'', createdAt = ISO 0,
             purchasedBy = None, purchasedAt = None, isDeleted = None \<rparr>"

definition demo_store :: store where
  "demo_store = \<lparr> users = [alice, bob, root], products = [lamp, vase], reports = [],
                   messages = [] \<rparr>"




text \<open>A store with two completed sales: the lamp sold at time 0 and a clock sold at
  time 100,000,000 (a little over one day later), next to the unsold vase.\<close>

definition sold_lamp :: product where
  "sold_lamp = lamp\<lparr>purchasedBy := Some ''alice'', purchasedAt := Some (ISO 0)\<rparr>"

definition sold_clock :: product where
  "sold_clock = \<lparr> pid = ''p3'', title = ''clock'', description = ''wall clock'', price = Fin 500,
                   imageUrl = ''http://x/clock.png'', author = ''bob'', createdAt = ISO 0,
                   purchasedBy = Some ''alice'', purchasedAt = Some (ISO 100000000),
                   isDeleted = Some False \<rparr>"

definition sales_store :: store where
  "sales_store = \<lparr> users = [alice, bob, root], products = [sold_lamp, vase, sold_clock],
                    reports = [], messages = [] \<rparr>"

text \<open>A store with three pending reports: two against \<open>bob\<close> (one of his profile, one
  of his lamp) and one against \<open>alice\<close> (of a chat message).\<close>

definition report_bob_profile :: report where
  "report_bob_profile = \<lparr> rid = ''r1'', rtype = UserReport, contentId = None,
       reportedUser = ''bob'', reason = ''rude in chat'', reportedBy = ''alice'',
       reportedAt = ISO 10 \<rparr>"

definition report_bob_lamp :: report where
  "report_bob_lamp = \<lparr> rid = ''r2'', rtype = ProductReport, contentId = Some ''p1'',
       reportedUser = ''bob'', reason = ''not as described'', reportedBy = ''alice'',
       reportedAt = ISO 20 \<rparr>"

definition report_alice_chat :: report where
  "report_alice_chat = \<lparr> rid = ''r3'', rtype = ChatReport, contentId = Some ''m1'',
       reportedUser = ''alice'', reason = ''spam message'', reportedBy = ''bob'',
       reportedAt = ISO 30 \<rparr>"

definition reported_store :: store where
  "reported_store = demo_store
     \<lparr>reports := [report_bob_profile, report_alice_chat, report_bob_lamp]\<rparr>"

text \<open>A store with balances at the edge of exact double arithmetic: \<open>croesus\<close> holds 2
  to the 53 and sells a coin for 1; \<open>midas\<close> holds 2 to the 53 plus 2 and lists a ring
  for 1. New York's clock around the change to summer time of 8 March 2026
  (07:00 UTC): five hours behind UTC before, four after.\<close>

definition croesus :: user where
  "croesus = \<lparr> username = ''croesus'', password = ''pw-croesus'', bio = None,
                isAdmin = None, canLogin = True, banExpiry = None,
                balance = Fin 9007199254740992 \<rparr>"

definition midas :: user where
  "midas = \<lparr> username = ''midas'', password = ''pw-midas'', bio = None, isAdmin = None,
              canLogin = True, banExpiry = None, balance = Fin 9007199254740994 \<rparr>"

definition coin :: product where
  "coin = \<lparr> pid = ''p5'', title = ''coin'', description = ''old coin'', price = Fin 1,
             imageUrl = ''http://x/coin.png'', author = ''croesus'', createdAt = ISO 0,
             purchasedBy = None, purchasedAt = None, isDeleted = Some False \<rparr>"

definition ring :: product where
  "ring = \<lparr> pid = ''p6'', title = ''ring'', description = ''gold ring'', price = Fin 1,
             imageUrl = ''http://x/ring.png'', author = ''midas'', createdAt = ISO 0,
             purchasedBy = None, purchasedAt = None, isDeleted = Some False \<rparr>"

definition rich_store :: store where
  "rich_store = \<lparr> users = [alice, croesus, midas], products = [coin, ring], reports = [],
                   messages = [] \<rparr>"


section \<open>Lookup lemmas\<close>

lemma findIndex_None_iff: "findIndex P xs = None \<longleftrightarrow> (\<forall>x \<in> set xs. \<not> P x)"
  by (induction xs) auto

lemma findIndex_SomeD:
  "findIndex P xs = Some i \<Longrightarrow> i < length xs \<and> P (xs ! i) \<and> (\<forall>j < i. \<not> P (xs ! j))"
proof (induction xs arbitrary: i)
  case Nil
  then show ?case by simp
next
  case (Cons x xs)
  show ?case
  proof (cases "P x")
    case True
    with Cons.prems show ?thesis by simp
  next
    case False
    with Cons.prems obtain k where k: "findIndex P xs = Some k" "i = Suc k"
      by auto
    from Cons.IH [OF k(1)] False k(2) show ?thesis
      by (auto simp: less_Suc_eq_0_disj)
  qed
qed

lemma find_by_findIndex: "List.find P xs = map_option (\<lambda>i. xs ! i) (findIndex P xs)"
  by (induction xs) (auto simp: option.map_comp comp_def)

lemma findIndex_update_same:
  "i < length xs \<Longrightarrow> P y = P (xs ! i) \<Longrightarrow> findIndex P (xs[i := y]) = findIndex P xs"
proof (induction xs arbitrary: i)
  case Nil
  then show ?case by simp
next
  case (Cons x xs)
  then show ?case by (cases i) auto
qed

lemma named_balance_update [simp]: "named n (u\<lparr>balance := b\<rparr>) = named n u"
  by (simp add: named_def)

lemma find_named_index:
  "List.find (named n) us = Some u \<Longrightarrow>
     \<exists>i. findIndex (named n) us = Some i \<and> i < length us \<and> us ! i = u"
  by (auto simp: find_by_findIndex dest: findIndex_SomeD)

lemma find_update_same:
  assumes "i < length xs" "P y = P (xs ! i)"
  shows "List.find P (xs[i := y]) =
           (if findIndex P xs = Some i then Some y else List.find P xs)"
proof (cases "findIndex P xs")
  case None
  with assms show ?thesis by (simp add: find_by_findIndex findIndex_update_same)
next
  case (Some j)
  from findIndex_SomeD [OF Some] have "j < length xs" by simp
  with assms Some show ?thesis
    by (simp add: find_by_findIndex findIndex_update_same nth_list_update)
qed

lemma balance_of_update:
  assumes "i < length us"
  shows "balance_of (us[i := (us ! i)\<lparr>balance := b\<rparr>]) n =
           (if findIndex (named n) us = Some i then Some b else balance_of us n)"
  using assms by (simp add: balance_of_def find_update_same named_balance_update)

lemmas demo_defs = demo_store_def alice_def bob_def root_def lamp_def vase_def

section \<open>Purchase\<close>

lemma round_double_exact: "\<bar>x\<bar> \<le> maxExact \<Longrightarrow> round_double x = Fin x"
  by (simp add: round_double_def)

lemma js_sub_exact: "\<bar>a - b\<bar> \<le> maxExact \<Longrightarrow> js_sub (Fin a) (Fin b) = Fin (a - b)"
  by (simp add: js_sub_def round_double_exact)


lemma bitlen_edge: "bitlen 9007199254740993 = 54"
  by (simp add: bitlen.simps)

lemma round_double_edge: "round_double 9007199254740993 = Fin 9007199254740992"
  by (simp add: round_double_def maxExact_def Let_def bitlen_edge)

lemmas rich_defs = rich_store_def alice_def croesus_def midas_def coin_def ring_def

text \<open>What a purchase by somebody other than the author does, in the arithmetic of the
  source.\<close>

lemma purchase_effect:
  assumes prd: "List.find (\<lambda>p. pid p = productId) (products st) = Some prd"
    and unsold: "\<not> truthy_str (purchasedBy prd)"
    and buyer: "List.find (named uname) (users st) = Some buyer"
    and funds: "\<not> js_lt (balance buyer) (price prd)"
    and other: "uname \<noteq> author prd"
  shows "\<exists>st' i. purchaseProduct st productId uname now =
            (st', Inr (prd\<lparr>purchasedBy := Some uname, purchasedAt := Some (ISO now)\<rparr>,
                       js_sub (balance buyer) (price prd))) \<and>
          findIndex (\<lambda>p. pid p = productId) (products st) = Some i \<and>
          products st' = (products st)[i :=
             prd\<lparr>purchasedBy := Some uname, purchasedAt := Some (ISO now)\<rparr>] \<and>
          balance_of (users st') uname = Some (js_sub (balance buyer) (price prd)) \<and>
          balance_of (users st') (author prd) =
            map_option (\<lambda>b. js_add b (price prd)) (balance_of (users st) (author prd)) \<and>
          (\<forall>n. n \<noteq> uname \<and> n \<noteq> author prd \<longrightarrow>
               balance_of (users st') n = balance_of (users st) n) \<and>
          map username (users st') = map username (users st) \<and>
          reports st' = reports st \<and> messages st' = messages st"
proof -
  from prd obtain i where i: "findIndex (\<lambda>p. pid p = productId) (products st) = Some i"
      "products st ! i = prd"
    by (auto simp: find_by_findIndex)
  from find_named_index [OF buyer] obtain b where
    b: "findIndex (named uname) (users st) = Some b" "b < length (users st)"
       "users st ! b = buyer"
    by blast
  let ?us1 = "(users st)[b := (users st ! b)\<lparr>balance := js_sub (balance buyer) (price prd)\<rparr>]"
  let ?p' = "prd\<lparr>purchasedBy := Some uname, purchasedAt := Some (ISO now)\<rparr>"
  have idx1: "findIndex (named n) ?us1 = findIndex (named n) (users st)" for n
    using b by (simp add: findIndex_update_same named_balance_update)
  have names1: "map username ?us1 = map username (users st)"
    using b by (simp add: map_update list_update_same_conv)
  have bal1: "balance_of ?us1 n =
      (if n = uname then Some (js_sub (balance buyer) (price prd)) else balance_of (users st) n)" for n
  proof -
    have "findIndex (named n) (users st) = Some b \<longleftrightarrow> n = uname"
    proof
      assume "findIndex (named n) (users st) = Some b"
      from findIndex_SomeD [OF this] findIndex_SomeD [OF b(1)] show "n = uname"
        by (simp add: named_def)
    qed (use b in simp)
    with balance_of_update [OF b(2), of "js_sub (balance buyer) (price prd)" n] show ?thesis by simp
  qed
  show ?thesis
  proof (cases "findIndex (named (author prd)) (users st)")
    case None
    then have nobody: "balance_of (users st) (author prd) = None"
      by (simp add: balance_of_def find_by_findIndex)
    have run: "purchaseProduct st productId uname now =
        (st\<lparr>users := ?us1, products := (products st)[i := ?p']\<rparr>,
         Inr (?p', js_sub (balance buyer) (price prd)))"
      using i unsold buyer funds b None idx1
      by (simp add: purchaseProduct_def Let_def)
    show ?thesis
      unfolding run using i(1) bal1 names1 nobody other by simp
  next
    case (Some s)
    from findIndex_SomeD [OF Some]
    have s: "s < length (users st)" "named (author prd) (users st ! s)"
      by simp_all
    from s(2) b(3) buyer other have sb: "s \<noteq> b"
      using findIndex_SomeD [OF b(1)] by (auto simp: named_def)
    let ?us2 = "?us1[s := (?us1 ! s)\<lparr>balance := js_add (balance (?us1 ! s)) (price prd)\<rparr>]"
    have run: "purchaseProduct st productId uname now =
        (st\<lparr>users := ?us2, products := (products st)[i := ?p']\<rparr>,
         Inr (?p', js_sub (balance buyer) (price prd)))"
      using i unsold buyer funds b Some idx1 sb
      by (simp add: purchaseProduct_def Let_def)
    have s1: "s < length ?us1" using s by simp
    have bal2: "balance_of ?us2 n =
        (if n = author prd then Some (js_add (balance (users st ! s)) (price prd))
         else balance_of ?us1 n)" for n
    proof -
      have "findIndex (named n) ?us1 = Some s \<longleftrightarrow> n = author prd"
      proof
        assume "findIndex (named n) ?us1 = Some s"
        then have "findIndex (named n) (users st) = Some s" by (simp add: idx1)
        from findIndex_SomeD [OF this] s(2) show "n = author prd"
          by (simp add: named_def)
      qed (simp add: idx1 Some)
      with balance_of_update [OF s1, of "js_add (balance (?us1 ! s)) (price prd)" n] sb show ?thesis
        by simp
    qed
    have seller_before: "balance_of (users st) (author prd) = Some (balance (users st ! s))"
      using Some by (simp add: balance_of_def find_by_findIndex)
    have names2: "map username ?us2 = map username (users st)"
      using s1 sb names1 by (simp add: map_update list_update_same_conv nth_list_update)
    show ?thesis
      unfolding run using i(1) bal1 bal2 names2 seller_before other by simp
  qed
qed

text \<open>
  C1 (as amended). Let the product with the given id be unsold, let the buyer exist and
  not be the product's author, and let the buyer's balance \<open>b\<close> and the price \<open>p\<close> be
  whole numbers with \<open>p \<le> b\<close> and \<open>b - p\<close> within the exact range of doubles. Then
  \<open>purchaseProduct\<close> succeeds; it returns the product stamped with the buyer and the
  purchase time together with the buyer's new balance; the buyer's stored balance is
  lower by exactly the price; the author's stored balance \<open>s\<close> is higher by exactly the
  price whenever \<open>s + p\<close> is within the exact range, and when no user has the author's
  name that credit is skipped while the buyer is debited all the same; every other
  balance, the user names, the reports and the messages are as before, and the product
  table changes at the product's row only.
\<close>

theorem purchase_transfers:
  assumes prd: "List.find (\<lambda>p. pid p = productId) (products st) = Some prd"
    and unsold: "\<not> truthy_str (purchasedBy prd)"
    and buyer: "List.find (named uname) (users st) = Some buyer"
    and amounts: "balance buyer = Fin b" "price prd = Fin p"
    and funds: "p \<le> b"
    and exact: "\<bar>b - p\<bar> \<le> maxExact"
    and other: "uname \<noteq> author prd"
  shows "\<exists>st' i. purchaseProduct st productId uname now =
            (st', Inr (prd\<lparr>purchasedBy := Some uname, purchasedAt := Some (ISO now)\<rparr>,
                       Fin (b - p))) \<and>
          findIndex (\<lambda>p. pid p = productId) (products st) = Some i \<and>
          products st' = (products st)[i :=
             prd\<lparr>purchasedBy := Some uname, purchasedAt := Some (ISO now)\<rparr>] \<and>
          balance_of (users st') uname = Some (Fin (b - p)) \<and>
          (\<forall>s. balance_of (users st) (author prd) = Some (Fin s) \<and> \<bar>s + p\<bar> \<le> maxExact \<longrightarrow>
               balance_of (users st') (author prd) = Some (Fin (s + p))) \<and>
          (balance_of (users st) (author prd) = None \<longrightarrow>
               balance_of (users st') (author prd) = None) \<and>
          (\<forall>n. n \<noteq> uname \<and> n \<noteq> author prd \<longrightarrow>
               balance_of (users st') n = balance_of (users st) n) \<and>
          map username (users st') = map username (users st) \<and>
          reports st' = reports st \<and> messages st' = messages st"
proof -
  have funds': "\<not> js_lt (balance buyer) (price prd)"
    using amounts funds by simp
  have debit: "js_sub (balance buyer) (price prd) = Fin (b - p)"
    using amounts exact by (simp add: js_sub_exact)
  from purchase_effect [OF prd unsold buyer funds' other, of now] obtain st' i where
    r: "purchaseProduct st productId uname now =
            (st', Inr (prd\<lparr>purchasedBy := Some uname, purchasedAt := Some (ISO now)\<rparr>,
                       js_sub (balance buyer) (price prd)))"
       "findIndex (\<lambda>p. pid p = productId) (products st) = Some i"
       "products st' = (products st)[i :=
             prd\<lparr>purchasedBy := Some uname, purchasedAt := Some (ISO now)\<rparr>]"
       "balance_of (users st') uname = Some (js_sub (balance buyer) (price prd))"
       "balance_of (users st') (author prd) =
            map_option (\<lambda>b. js_add b (price prd)) (balance_of (users st) (author prd))"
       "\<forall>n. n \<noteq> uname \<and> n \<noteq> author prd \<longrightarrow>
               balance_of (users st') n = balance_of (users st) n"
       "map username (users st') = map username (users st)"
       "reports st' = reports st" "messages st' = messages st"
    by blast
  have credit: "\<forall>s. balance_of (users st) (author prd) = Some (Fin s) \<and>
                    \<bar>s + p\<bar> \<le> maxExact \<longrightarrow>
                balance_of (users st') (author prd) = Some (Fin (s + p))"
    using r(5) amounts(2) by (simp add: round_double_exact)
  have skipped: "balance_of (users st) (author prd) = None \<longrightarrow>
                 balance_of (users st') (author prd) = None"
    using r(5) by simp
  note ran = r(1) [unfolded debit] and debited = r(4) [unfolded debit]
  from ran r(2) r(3) debited credit skipped r(6) r(7) r(8) r(9) show ?thesis
    by (intro exI [of _ st'] exI [of _ i] conjI) assumption+
qed

text \<open>The scenario of the specification: \<open>alice\<close> (5,000,000) buys the lamp priced
  100,000 from \<open>bob\<close> (0).\<close>

theorem purchase_transfers_witness:
  "List.find (\<lambda>p. pid p = ''p1'') (products demo_store) = Some lamp \<and>
   \<not> truthy_str (purchasedBy lamp) \<and>
   List.find (named ''alice'') (users demo_store) = Some alice \<and>
   balance alice = Fin 5000000 \<and> price lamp = Fin 100000 \<and> ''alice'' \<noteq> author lamp \<and>
   (\<exists>st'. purchaseProduct demo_store ''p1'' ''alice'' 1000 =
            (st', Inr (lamp\<lparr>purchasedBy := Some ''alice'', purchasedAt := Some (ISO 1000)\<rparr>,
                       Fin 4900000)) \<and>
          balance_of (users st') ''alice'' = Some (Fin 4900000) \<and>
          balance_of (users st') ''bob'' = Some (Fin 100000))"
proof -
  have h1: "List.find (\<lambda>p. pid p = ''p1'') (products demo_store) = Some lamp"
    by (simp add: demo_defs)
  have h2: "\<not> truthy_str (purchasedBy lamp)"
    by (simp add: lamp_def truthy_str_def)
  have h3: "List.find (named ''alice'') (users demo_store) = Some alice"
    by (simp add: demo_defs named_def)
  have h4: "balance alice = Fin 5000000" "price lamp = Fin 100000"
    by (simp_all add: demo_defs)
  have h5: "(100000::int) \<le> 5000000" "\<bar>5000000 - 100000 :: int\<bar> \<le> maxExact"
    by (simp_all add: maxExact_def)
  have h6: "''alice'' \<noteq> author lamp"
    by (simp add: lamp_def)
  have seller: "balance_of (users demo_store) (author lamp) = Some (Fin 0) \<and>
                \<bar>0 + 100000 :: int\<bar> \<le> maxExact"
    by (simp add: demo_defs balance_of_def named_def maxExact_def)
  from purchase_transfers [OF h1 h2 h3 h4 h5 h6, of 1000] obtain st' where
    r: "purchaseProduct demo_store ''p1'' ''alice'' 1000 =
          (st', Inr (lamp\<lparr>purchasedBy := Some ''alice'', purchasedAt := Some (ISO 1000)\<rparr>,
                     Fin (5000000 - 100000)))"
       "balance_of (users st') ''alice'' = Some (Fin (5000000 - 100000))"
       "\<forall>s. balance_of (users demo_store) (author lamp) = Some (Fin s) \<and>
            \<bar>s + 100000\<bar> \<le> maxExact \<longrightarrow>
            balance_of (users st') (author lamp) = Some (Fin (s + 100000))"
    by blast
  from r(3) seller have "balance_of (users st') (author lamp) = Some (Fin (0 + 100000))"
    by blast
  then have "balance_of (users st') ''bob'' = Some (Fin 100000)"
    by (simp add: lamp_def)
  with r(1,2) have "\<exists>st'. purchaseProduct demo_store ''p1'' ''alice'' 1000 =
            (st', Inr (lamp\<lparr>purchasedBy := Some ''alice'', purchasedAt := Some (ISO 1000)\<rparr>,
                       Fin 4900000)) \<and>
          balance_of (users st') ''alice'' = Some (Fin 4900000) \<and>
          balance_of (users st') ''bob'' = Some (Fin 100000)"
    by simp
  with h1 h2 h3 h4 h6 show ?thesis by blast
qed

text \<open>
  C1 as stated does not hold once a balance leaves the exact range of doubles:
  \<open>croesus\<close> holds 2 to the 53 (9,007,199,254,740,992) and \<open>alice\<close> buys his coin for 1.
  Her balance drops by 1, and his is still 2 to the 53 afterwards, not one more: the
  source's \<open>balance += price\<close> rounds the sum back.
\<close>

theorem purchase_rounded_credit_counterexample:
  "List.find (\<lambda>p. pid p = ''p5'') (products rich_store) = Some coin \<and>
   purchasedBy coin = None \<and> price coin = Fin 1 \<and> author coin = ''croesus'' \<and>
   balance_of (users rich_store) ''alice'' = Some (Fin 5000000) \<and>
   balance_of (users rich_store) ''croesus'' = Some (Fin 9007199254740992) \<and>
   snd (purchaseProduct rich_store ''p5'' ''alice'' 1000) =
     Inr (coin\<lparr>purchasedBy := Some ''alice'', purchasedAt := Some (ISO 1000)\<rparr>, Fin 4999999) \<and>
   balance_of (users (fst (purchaseProduct rich_store ''p5'' ''alice'' 1000))) ''croesus''
     = Some (Fin 9007199254740992) \<and>
   balance_of (users (fst (purchaseProduct rich_store ''p5'' ''alice'' 1000))) ''croesus''
     \<noteq> Some (Fin (9007199254740992 + 1))"
  by (simp add: purchaseProduct_def rich_defs named_def truthy_str_def balance_of_def Let_def
        js_sub_def round_double_edge round_double_exact maxExact_def)

text \<open>
  C2. \<open>purchaseProduct\<close> rejects with \<open>ProductNotFound\<close> when no product has the id, with
  \<open>AlreadySold\<close> whenever the product's \<open>purchasedBy\<close> is set (truthy, as the source tests
  it), and with \<open>InsufficientBalance\<close> when the product is unsold and the buyer's balance
  is below the price; and whenever it rejects, for whatever reason, the store it leaves
  is the store it was given.
\<close>

theorem purchase_rejections:
  "((\<forall>p \<in> set (products st). pid p \<noteq> productId) \<longrightarrow>
       purchaseProduct st productId uname now = (st, Inl ProductNotFound)) \<and>
   (\<forall>p. List.find (\<lambda>p. pid p = productId) (products st) = Some p \<and>
        truthy_str (purchasedBy p) \<longrightarrow>
       purchaseProduct st productId uname now = (st, Inl AlreadySold)) \<and>
   (\<forall>p buyer. List.find (\<lambda>p. pid p = productId) (products st) = Some p \<and>
        \<not> truthy_str (purchasedBy p) \<and>
        List.find (named uname) (users st) = Some buyer \<and>
        js_lt (balance buyer) (price p) \<longrightarrow>
       purchaseProduct st productId uname now = (st, Inl InsufficientBalance)) \<and>
   (\<forall>e. snd (purchaseProduct st productId uname now) = Inl e \<longrightarrow>
       fst (purchaseProduct st productId uname now) = st)"
proof (intro conjI allI impI)
  assume "\<forall>p \<in> set (products st). pid p \<noteq> productId"
  then have "findIndex (\<lambda>p. pid p = productId) (products st) = None"
    by (simp add: findIndex_None_iff)
  then show "purchaseProduct st productId uname now = (st, Inl ProductNotFound)"
    by (simp add: purchaseProduct_def)
next
  fix p
  assume "List.find (\<lambda>p. pid p = productId) (products st) = Some p
            \<and> truthy_str (purchasedBy p)"
  then show "purchaseProduct st productId uname now = (st, Inl AlreadySold)"
    by (auto simp: purchaseProduct_def find_by_findIndex)
next
  fix p buyer
  assume "List.find (\<lambda>p. pid p = productId) (products st) = Some p \<and>
        \<not> truthy_str (purchasedBy p) \<and>
        List.find (named uname) (users st) = Some buyer \<and>
        js_lt (balance buyer) (price p)"
  then show "purchaseProduct st productId uname now = (st, Inl InsufficientBalance)"
    by (auto simp: purchaseProduct_def find_by_findIndex)
next
  fix e
  assume "snd (purchaseProduct st productId uname now) = Inl e"
  then show "fst (purchaseProduct st productId uname now) = st"
    by (auto simp: purchaseProduct_def Let_def split: option.splits if_splits)
qed

text \<open>The three rejections on the example store: an unknown id, the lamp once \<open>alice\<close>
  has bought it, and \<open>bob\<close> (balance 0) trying to buy the vase.\<close>

theorem purchase_rejections_witness:
  "purchaseProduct demo_store ''p9'' ''alice'' 1000 = (demo_store, Inl ProductNotFound) \<and>
   purchaseProduct (fst (purchaseProduct demo_store ''p1'' ''alice'' 1000)) ''p1'' ''root'' 2000
     = (fst (purchaseProduct demo_store ''p1'' ''alice'' 1000), Inl AlreadySold) \<and>
   purchaseProduct demo_store ''p2'' ''bob'' 1000 = (demo_store, Inl InsufficientBalance) \<and>
   fst (purchaseProduct demo_store ''p2'' ''bob'' 1000) = demo_store"
proof -
  let ?sold = "fst (purchaseProduct demo_store ''p1'' ''alice'' 1000)"
  have a: "\<forall>p \<in> set (products demo_store). pid p \<noteq> ''p9''"
    by (simp add: demo_defs)
  have sold: "products ?sold =
      [lamp\<lparr>purchasedBy := Some ''alice'', purchasedAt := Some (ISO 1000)\<rparr>, vase]"
    by (simp add: purchaseProduct_def demo_defs named_def truthy_str_def Let_def)
  have b: "List.find (\<lambda>p. pid p = ''p1'') (products ?sold) =
             Some (lamp\<lparr>purchasedBy := Some ''alice'', purchasedAt := Some (ISO 1000)\<rparr>) \<and>
           truthy_str (purchasedBy
             (lamp\<lparr>purchasedBy := Some ''alice'', purchasedAt := Some (ISO 1000)\<rparr>))"
    unfolding sold by (simp add: lamp_def truthy_str_def)
  have c: "List.find (\<lambda>p. pid p = ''p2'') (products demo_store) = Some vase \<and>
           \<not> truthy_str (purchasedBy vase) \<and>
           List.find (named ''bob'') (users demo_store) = Some bob \<and>
           js_lt (balance bob) (price vase)"
    by (simp add: demo_defs named_def truthy_str_def)
  have d: "snd (purchaseProduct demo_store ''p2'' ''bob'' 1000) = Inl InsufficientBalance"
    by (simp add: purchaseProduct_def demo_defs named_def truthy_str_def Let_def)
  from purchase_rejections [of demo_store "''p9''" "''alice''" 1000] a
  have 1: "purchaseProduct demo_store ''p9'' ''alice'' 1000 = (demo_store, Inl ProductNotFound)"
    by blast
  from purchase_rejections [of ?sold "''p1''" "''root''" 2000] b
  have 2: "purchaseProduct ?sold ''p1'' ''root'' 2000 = (?sold, Inl AlreadySold)"
    by blast
  from purchase_rejections [of demo_store "''p2''" "''bob''" 1000] c
  have 3: "purchaseProduct demo_store ''p2'' ''bob'' 1000 = (demo_store, Inl InsufficientBalance)"
    by blast
  from purchase_rejections [of demo_store "''p2''" "''bob''" 1000] d
  have 4: "fst (purchaseProduct demo_store ''p2'' ''bob'' 1000) = demo_store"
    by blast
  from 1 2 3 4 show ?thesis by blast
qed




section \<open>Login and bans\<close>

lemma named_ban_update [simp]:
  "named n (u\<lparr>canLogin := c, banExpiry := e\<rparr>) = named n u"
  by (simp add: named_def)


lemma fixed_zone_days: "addDays (fixed_zone off) t n = t + n * msPerDay"
  by (simp add: addDays_def fixed_zone_def)

text \<open>Every writer of the ban fields keeps the rule of the data model.\<close>

lemma ban_rule_kept:
  assumes "\<forall>u \<in> set (users st). ban_consistent u"
  shows "\<forall>u \<in> set (users (fst (login st uname pw now now' token))). ban_consistent u"
    and "\<forall>u \<in> set (users (fst (banUser z st uname days adminUsername now))).
           ban_consistent u"
    and "\<forall>u \<in> set (users (fst (handleBanUser z st view viewer d now uname))).
           ban_consistent u"
  using assms
  by (auto simp: login_def banUser_def handleBanUser_def Let_def ban_consistent_def
           split: option.splits if_splits
           dest!: set_update_subset_insert [THEN subsetD])






section \<open>Sweep of completed sales\<close>

lemma sweepable_iff:
  "sweepable now p \<longleftrightarrow>
     (\<exists>t. purchasedAt p = Some (ISO t) \<and> msPerDay < now - t) \<and> isDeleted p \<noteq> Some True"
  by (auto simp: sweepable_def truthy_bool_def split: option.splits isodate.splits)

lemma cleanup_one_twice: "cleanup_one now (cleanup_one now p) = cleanup_one now p"
  by (simp add: cleanup_one_def sweepable_def truthy_bool_def
           split: option.splits isodate.splits)

lemma not_sweepable_after: "\<not> sweepable now (cleanup_one now p)"
  by (simp add: cleanup_one_def sweepable_def truthy_bool_def
           split: option.splits isodate.splits)

text \<open>
  C5. \<open>cleanupPurchasedProducts\<close> keeps the product table's length and order and sets
  \<open>isDeleted\<close> to true on exactly the rows whose \<open>purchasedAt\<close> is a date more than 24
  hours before \<open>now\<close> and whose \<open>isDeleted\<close> is not already true, changing no other field
  of such a row; every other row, and the users, reports and messages, are as before;
  the flag it returns says whether a row was changed. A second run at the same \<open>now\<close>
  changes nothing and reports no change.
\<close>

theorem sweep_exact_and_idempotent:
  "length (products (fst (cleanupPurchasedProducts st now))) = length (products st) \<and>
   (\<forall>i < length (products st).
      products (fst (cleanupPurchasedProducts st now)) ! i =
        (if (\<exists>t. purchasedAt (products st ! i) = Some (ISO t) \<and> msPerDay < now - t) \<and>
            isDeleted (products st ! i) \<noteq> Some True
         then (products st ! i)\<lparr>isDeleted := Some True\<rparr>
         else products st ! i)) \<and>
   users (fst (cleanupPurchasedProducts st now)) = users st \<and>
   reports (fst (cleanupPurchasedProducts st now)) = reports st \<and>
   messages (fst (cleanupPurchasedProducts st now)) = messages st \<and>
   snd (cleanupPurchasedProducts st now) =
     (\<exists>p \<in> set (products st).
        (\<exists>t. purchasedAt p = Some (ISO t) \<and> msPerDay < now - t) \<and> isDeleted p \<noteq> Some True) \<and>
   cleanupPurchasedProducts (fst (cleanupPurchasedProducts st now)) now =
     (fst (cleanupPurchasedProducts st now), False)"
proof -
  have rows: "\<forall>i < length (products st).
      products (fst (cleanupPurchasedProducts st now)) ! i =
        (if (\<exists>t. purchasedAt (products st ! i) = Some (ISO t) \<and> msPerDay < now - t) \<and>
            isDeleted (products st ! i) \<noteq> Some True
         then (products st ! i)\<lparr>isDeleted := Some True\<rparr>
         else products st ! i)"
    by (simp add: cleanupPurchasedProducts_def cleanup_one_def sweepable_iff)
  have flag: "snd (cleanupPurchasedProducts st now) =
     (\<exists>p \<in> set (products st).
        (\<exists>t. purchasedAt p = Some (ISO t) \<and> msPerDay < now - t) \<and> isDeleted p \<noteq> Some True)"
    by (simp add: cleanupPurchasedProducts_def list_ex_iff sweepable_iff)
  have again: "cleanupPurchasedProducts (fst (cleanupPurchasedProducts st now)) now =
     (fst (cleanupPurchasedProducts st now), False)"
    by (simp add: cleanupPurchasedProducts_def cleanup_one_twice list_ex_iff
          not_sweepable_after)
  from rows flag again show ?thesis
    by (simp add: cleanupPurchasedProducts_def)
qed

text \<open>Two days after the epoch the lamp's sale is more than a day old and the clock's is
  not.\<close>

theorem sweep_exact_and_idempotent_witness:
  "products (fst (cleanupPurchasedProducts sales_store 172800000)) ! 0
     = sold_lamp\<lparr>isDeleted := Some True\<rparr> \<and>
   products (fst (cleanupPurchasedProducts sales_store 172800000)) ! 1 = vase \<and>
   products (fst (cleanupPurchasedProducts sales_store 172800000)) ! 2 = sold_clock \<and>
   snd (cleanupPurchasedProducts sales_store 172800000)"
proof -
  let ?st' = "fst (cleanupPurchasedProducts sales_store 172800000)"
  note sale_defs = sales_store_def sold_lamp_def sold_clock_def lamp_def vase_def msPerDay_def
  have len: "length (products sales_store) = 3"
    by (simp add: sales_store_def)
  have due0: "(\<exists>t. purchasedAt (products sales_store ! 0) = Some (ISO t) \<and>
                   msPerDay < 172800000 - t) \<and>
              isDeleted (products sales_store ! 0) \<noteq> Some True"
    by (simp add: sale_defs)
  have due1: "\<not> ((\<exists>t. purchasedAt (products sales_store ! 1) = Some (ISO t) \<and>
                   msPerDay < 172800000 - t) \<and>
              isDeleted (products sales_store ! 1) \<noteq> Some True)"
    by (simp add: sale_defs)
  have due2: "\<not> ((\<exists>t. purchasedAt (products sales_store ! 2) = Some (ISO t) \<and>
                   msPerDay < 172800000 - t) \<and>
              isDeleted (products sales_store ! 2) \<noteq> Some True)"
    by (simp add: sale_defs)
  have rows: "products sales_store ! 0 = sold_lamp" "products sales_store ! 1 = vase"
    "products sales_store ! 2 = sold_clock"
    by (simp_all add: sales_store_def)
  have any: "\<exists>p \<in> set (products sales_store).
        (\<exists>t. purchasedAt p = Some (ISO t) \<and> msPerDay < 172800000 - t) \<and>
        isDeleted p \<noteq> Some True"
    by (simp add: sale_defs)
  note inst = sweep_exact_and_idempotent [of sales_store 172800000]
  from inst len have all: "\<forall>i < 3.
      products ?st' ! i =
        (if (\<exists>t. purchasedAt (products sales_store ! i) = Some (ISO t) \<and>
                 msPerDay < 172800000 - t) \<and>
            isDeleted (products sales_store ! i) \<noteq> Some True
         then (products sales_store ! i)\<lparr>isDeleted := Some True\<rparr>
         else products sales_store ! i)"
    by simp
  have c: "(0::nat) < 3" "(1::nat) < 3" "(2::nat) < 3"
    by simp_all
  from all c(1) have "products ?st' ! 0 =
        (if (\<exists>t. purchasedAt (products sales_store ! 0) = Some (ISO t) \<and>
                 msPerDay < 172800000 - t) \<and>
            isDeleted (products sales_store ! 0) \<noteq> Some True
         then (products sales_store ! 0)\<lparr>isDeleted := Some True\<rparr>
         else products sales_store ! 0)"
    by blast
  also have "\<dots> = (products sales_store ! 0)\<lparr>isDeleted := Some True\<rparr>"
    by (rule if_P [OF due0])
  finally have 0: "products ?st' ! 0 = sold_lamp\<lparr>isDeleted := Some True\<rparr>"
    by (simp only: rows)
  from all c(2) have "products ?st' ! 1 =
        (if (\<exists>t. purchasedAt (products sales_store ! 1) = Some (ISO t) \<and>
                 msPerDay < 172800000 - t) \<and>
            isDeleted (products sales_store ! 1) \<noteq> Some True
         then (products sales_store ! 1)\<lparr>isDeleted := Some True\<rparr>
         else products sales_store ! 1)"
    by blast
  also have "\<dots> = products sales_store ! 1"
    by (rule if_not_P [OF due1])
  finally have 1: "products ?st' ! 1 = vase"
    by (simp only: rows)
  from all c(3) have "products ?st' ! 2 =
        (if (\<exists>t. purchasedAt (products sales_store ! 2) = Some (ISO t) \<and>
                 msPerDay < 172800000 - t) \<and>
            isDeleted (products sales_store ! 2) \<noteq> Some True
         then (products sales_store ! 2)\<lparr>isDeleted := Some True\<rparr>
         else products sales_store ! 2)"
    by blast
  also have "\<dots> = products sales_store ! 2"
    by (rule if_not_P [OF due2])
  finally have 2: "products ?st' ! 2 = sold_clock"
    by (simp only: rows)
  from inst any have 3: "snd (cleanupPurchasedProducts sales_store 172800000)"
    by blast
  from 0 1 2 3 show ?thesis by blast
qed

section \<open>Soft deletion is permanent\<close>

lemma apply_form_patch [simp]:
  "isDeleted (apply_patch p (form_patch t d pr img)) = isDeleted p"
  "pid (apply_patch p (form_patch t d pr img)) = pid p"
  by (simp_all add: apply_patch_def form_patch_def override_def)

lemma cleanup_one_keeps:
  "isDeleted p = Some True \<Longrightarrow> isDeleted (cleanup_one now p) = Some True"
  "pid (cleanup_one now p) = pid p"
  by (simp_all add: cleanup_one_def)

lemma deleted_stays_step:
  assumes "i < length (products st)" "isDeleted (products st ! i) = Some True"
  shows "i < length (products (apply_operation st op)) \<and>
         isDeleted (products (apply_operation st op) ! i) = Some True \<and>
         pid (products (apply_operation st op) ! i) = pid (products st ! i)"
proof (cases op)
  case (CreateListing productData uuid now)
  with assms show ?thesis
    by (simp add: createProduct_def Let_def nth_append)
next
  case (UpdateListing productId t d pr img actor)
  with assms show ?thesis
    by (auto simp: updateProduct_def Let_def nth_list_update apply_form_patch
             split: option.splits
             dest: findIndex_SomeD)
next
  case (SoftDeleteListing productId actor)
  with assms show ?thesis
    by (auto simp: deleteProduct_def Let_def nth_list_update split: option.splits
             dest: findIndex_SomeD)
next
  case (Purchase productId buyer now)
  with assms show ?thesis
    by (auto simp: purchaseProduct_def Let_def nth_list_update split: option.splits
             dest: findIndex_SomeD)
next
  case (SweepExpiredSales now)
  with assms show ?thesis
    by (simp add: cleanupPurchasedProducts_def cleanup_one_keeps)
next
  case (AdminDeleteContent view viewer rep)
  with assms show ?thesis
    by (auto simp: handleDeleteContent_def Let_def nth_list_update
             split: option.splits report_type.splits dest: findIndex_SomeD)
qed

lemma deleted_stays_run:
  "i < length (products st) \<Longrightarrow> isDeleted (products st ! i) = Some True \<Longrightarrow>
   i < length (products (run st ops)) \<and>
   isDeleted (products (run st ops) ! i) = Some True \<and>
   pid (products (run st ops) ! i) = pid (products st ! i)"
proof (induction ops arbitrary: st)
  case Nil
  then show ?case by (simp add: run_def)
next
  case (Cons op ops)
  from deleted_stays_step [OF Cons.prems, of op]
  have step: "i < length (products (apply_operation st op))"
    "isDeleted (products (apply_operation st op) ! i) = Some True"
    "pid (products (apply_operation st op) ! i) = pid (products st ! i)"
    by simp_all
  from Cons.IH [OF step(1,2)] step(3) show ?case
    by (simp add: run_def)
qed

text \<open>
  C6. A product row whose \<open>isDeleted\<close> is true keeps its place, its id and
  \<open>isDeleted = true\<close> through every operation on the product table (creating a listing,
  updating one through the edit form, soft-deleting, purchasing, the sweep, and the
  dashboard's content deletion) and so through every sequence of them. And when
  \<open>deleteProduct\<close> has succeeded, calling it again with the same arguments succeeds
  with the same product and leaves the store as the first call left it, with
  \<open>isDeleted\<close> true.
\<close>

theorem isDeleted_monotonic:
  "(\<forall>i. i < length (products st) \<and> isDeleted (products st ! i) = Some True \<longrightarrow>
      i < length (products (apply_operation st op)) \<and>
      isDeleted (products (apply_operation st op) ! i) = Some True \<and>
      pid (products (apply_operation st op) ! i) = pid (products st ! i)) \<and>
   (\<forall>i. i < length (products st) \<and> isDeleted (products st ! i) = Some True \<longrightarrow>
      i < length (products (run st ops)) \<and>
      isDeleted (products (run st ops) ! i) = Some True \<and>
      pid (products (run st ops) ! i) = pid (products st ! i)) \<and>
   (\<forall>p. snd (deleteProduct st productId actor) = Inr p \<longrightarrow>
      isDeleted p = Some True \<and>
      List.find (\<lambda>q. pid q = productId) (products (fst (deleteProduct st productId actor)))
        = Some p \<and>
      deleteProduct (fst (deleteProduct st productId actor)) productId actor =
        (fst (deleteProduct st productId actor), Inr p))"
proof (intro conjI allI impI)
  fix p
  assume ok: "snd (deleteProduct st productId actor) = Inr p"
  then obtain k where k: "findIndex (\<lambda>q. pid q = productId) (products st) = Some k"
    by (auto simp: deleteProduct_def split: option.splits)
  from findIndex_SomeD [OF k] have len: "k < length (products st)"
    and key: "pid (products st ! k) = productId"
    by simp_all
  let ?p = "(products st ! k)\<lparr>isDeleted := Some True\<rparr>"
  from ok k have auth: "\<not> (author (products st ! k) \<noteq> actor \<and> \<not> is_admin_name (users st) actor)"
    by (auto simp: deleteProduct_def Let_def split: if_splits)
  from ok k auth have p: "p = ?p"
    by (auto simp: deleteProduct_def Let_def)
  have first: "deleteProduct st productId actor = (st\<lparr>products := (products st)[k := ?p]\<rparr>, Inr ?p)"
    using k auth by (auto simp: deleteProduct_def Let_def)
  have k': "findIndex (\<lambda>q. pid q = productId) ((products st)[k := ?p]) = Some k"
    using k len by (simp add: findIndex_update_same)
  show "isDeleted p = Some True"
    by (simp add: p)
  show "List.find (\<lambda>q. pid q = productId) (products (fst (deleteProduct st productId actor)))
        = Some p"
    unfolding first p using k' len by (simp add: find_by_findIndex)
  show "deleteProduct (fst (deleteProduct st productId actor)) productId actor =
        (fst (deleteProduct st productId actor), Inr p)"
    unfolding first p using k' len auth
    by (auto simp: deleteProduct_def Let_def)
qed (use deleted_stays_step deleted_stays_run in blast)+

text \<open>\<open>bob\<close> deletes his lamp; the row then stays deleted through an edit, through a
  sequence of an edit, a purchase, a sweep and a new listing, and a second delete changes
  nothing.\<close>

theorem isDeleted_monotonic_witness:
  "isDeleted (products (fst (deleteProduct demo_store ''p1'' ''bob'')) ! 0) = Some True \<and>
   isDeleted (products (apply_operation (fst (deleteProduct demo_store ''p1'' ''bob''))
       (UpdateListing ''p1'' ''lamp 2'' ''as new'' (Fin 5) ''http://x/l.png'' ''bob'')) ! 0) = Some True \<and>
   isDeleted (products (run (fst (deleteProduct demo_store ''p1'' ''bob''))
       [UpdateListing ''p1'' ''lamp 2'' ''as new'' (Fin 5) ''http://x/l.png'' ''bob'',
        Purchase ''p1'' ''alice'' 1000,
        SweepExpiredSales 172800000,
        CreateListing \<lparr> d_title = ''t'', d_description = ''d'', d_price = Fin 1,
                        d_imageUrl = ''http://x/t.png'', d_author = ''bob'' \<rparr> ''p4'' 5]) ! 0)
     = Some True \<and>
   deleteProduct (fst (deleteProduct demo_store ''p1'' ''bob'')) ''p1'' ''bob'' =
     (fst (deleteProduct demo_store ''p1'' ''bob''), Inr (lamp\<lparr>isDeleted := Some True\<rparr>))"
proof -
  let ?D = "fst (deleteProduct demo_store ''p1'' ''bob'')"
  have ok: "snd (deleteProduct demo_store ''p1'' ''bob'') = Inr (lamp\<lparr>isDeleted := Some True\<rparr>)"
    by (simp add: deleteProduct_def demo_defs Let_def)
  have pre: "0 < length (products ?D) \<and> isDeleted (products ?D ! 0) = Some True"
    by (simp add: deleteProduct_def demo_defs Let_def)
  from isDeleted_monotonic [where st = ?D] pre
  have 1: "isDeleted (products (apply_operation ?D op) ! 0) = Some True" for op
    by blast
  from isDeleted_monotonic [where st = ?D] pre
  have 2: "isDeleted (products (run ?D ops) ! 0) = Some True" for ops
    by blast
  from isDeleted_monotonic [where st = demo_store and productId = "''p1''" and actor = "''bob''"] ok
  have 3: "deleteProduct ?D ''p1'' ''bob'' = (?D, Inr (lamp\<lparr>isDeleted := Some True\<rparr>))"
    by blast
  from pre 1 2 3 show ?thesis by blast
qed

section \<open>Reports\<close>

text \<open>
  C7. On the user profile page a report whose trimmed reason has fewer than 5
  characters is refused with \<open>TooShort\<close> (by the handler and again by \<open>api.reportUser\<close>),
  and an accepted one appends exactly one row. The product page tests the length of
  the untrimmed reason instead and then files the trimmed text: the reason \<open>ab\<close>
  followed by three spaces has 5 characters, 2 after trimming, and \<open>alice\<close>'s report of
  \<open>bob\<close>'s lamp with it is accepted and stored with the reason \<open>ab\<close>, where the same
  reason on the profile page is refused.
\<close>

theorem product_report_short_reason_accepted:
  "length (trim ''ab   '') = 2 \<and>
   handleReport_product (\<lambda>s. s) demo_store (Some (strip_password alice)) (Some lamp)
       ''p1'' ''ab   '' ''r1'' 1000 =
     (demo_store\<lparr>reports :=
        [\<lparr> rid = ''r1'', rtype = ProductReport, contentId = Some ''p1'',
            reportedUser = ''bob'', reason = ''ab'', reportedBy = ''alice'',
            reportedAt = ISO 1000 \<rparr>]\<rparr>,
      Inr ()) \<and>
   handleReport_user (\<lambda>s. s) demo_store (Some (strip_password alice))
       ''bob'' ''ab   '' ''r1'' 1000 = (demo_store, Inl TooShort)"
  by (simp add: handleReport_product_def handleReport_user_def reportProduct_def
        sanitizeText_def trim_def is_space_def strip_password_def demo_defs)

lemma user_report_length_rule:
  "(length (trim rsn) < 5 \<longrightarrow>
      snd (handleReport_user sanitize st (Some viewer) uname rsn uuid now) \<noteq> Inr () \<and>
      fst (handleReport_user sanitize st (Some viewer) uname rsn uuid now) = st \<and>
      reportUser st uname rsn reporter uuid now = (st, Inl TooShort)) \<and>
   (snd (reportUser st uname rsn reporter uuid now) = Inr () \<longrightarrow>
      5 \<le> length (trim rsn) \<and>
      reports (fst (reportUser st uname rsn reporter uuid now)) =
        reports st @ [\<lparr> rid = uuid, rtype = UserReport, contentId = None,
                         reportedUser = uname, reason = rsn, reportedBy = reporter,
                         reportedAt = ISO now \<rparr>])"
  by (auto simp: handleReport_user_def reportUser_def)

section \<open>Session restoration\<close>

lemma getUser_json_unknown:
  "\<forall>u \<in> set us. JStr (username u) \<noteq> userId \<Longrightarrow> getUser_json us userId = Inl UserNotFound"
  by (cases userId)
     (auto simp: getUser_json_def getUser_def named_def find_None_iff split: option.splits)

text \<open>
  C8 (as amended). \<open>initializeAuth\<close> always returns (each failure inside it is a caught
  branch). With no stored entry, an entry that does not parse, or a parsed entry that
  lacks a truthy \<open>token\<close> or \<open>userId\<close>, it sets no current user and leaves the stored
  entry as it is. With a structurally valid entry whose \<open>userId\<close> names no user of the
  store it sets no current user and removes the entry. With a valid entry naming a
  user it sets that user, without the password, and keeps the entry.
\<close>

theorem restore_session_outcomes:
  "(item = NoItem \<or> item = BadJson \<longrightarrow> initializeAuth us item = (item, None)) \<and>
   (\<forall>v. item = Json v \<and>
        \<not> (truthy_json v \<and> truthy_field v ''token'' \<and> truthy_field v ''userId'') \<longrightarrow>
      initializeAuth us item = (item, None)) \<and>
   (\<forall>v userId. item = Json v \<and> truthy_json v \<and> truthy_field v ''token'' \<and>
        js_field v ''userId'' = Some userId \<and> truthy_json userId \<and>
        (\<forall>u \<in> set us. JStr (username u) \<noteq> userId) \<longrightarrow>
      initializeAuth us item = (NoItem, None)) \<and>
   (\<forall>v n u. item = Json v \<and> truthy_json v \<and> truthy_field v ''token'' \<and>
        js_field v ''userId'' = Some (JStr n) \<and> n \<noteq> [] \<and>
        List.find (named n) us = Some u \<longrightarrow>
      initializeAuth us item = (item, Some (strip_password u)))"
proof (intro conjI allI impI)
  assume "item = NoItem \<or> item = BadJson"
  then show "initializeAuth us item = (item, None)"
    by (auto simp: initializeAuth_def storage_get_def truthy_json_def)
next
  fix v
  assume "item = Json v \<and>
        \<not> (truthy_json v \<and> truthy_field v ''token'' \<and> truthy_field v ''userId'')"
  then show "initializeAuth us item = (item, None)"
    by (auto simp: initializeAuth_def storage_get_def truthy_field_def split: option.splits)
next
  fix v userId
  assume "item = Json v \<and> truthy_json v \<and> truthy_field v ''token'' \<and>
        js_field v ''userId'' = Some userId \<and> truthy_json userId \<and>
        (\<forall>u \<in> set us. JStr (username u) \<noteq> userId)"
  then show "initializeAuth us item = (NoItem, None)"
    by (simp add: initializeAuth_def storage_get_def storage_remove_def getUser_json_unknown)
next
  fix v n u
  assume "item = Json v \<and> truthy_json v \<and> truthy_field v ''token'' \<and>
        js_field v ''userId'' = Some (JStr n) \<and> n \<noteq> [] \<and>
        List.find (named n) us = Some u"
  then show "initializeAuth us item = (item, Some (strip_password u))"
    by (simp add: initializeAuth_def storage_get_def getUser_json_def getUser_def
          truthy_json_def)
qed

text \<open>No entry; an entry that is not JSON; an entry without a token; an entry for a user
  who is not in the store; and \<open>alice\<close>'s valid entry.\<close>

theorem restore_session_outcomes_witness:
  "initializeAuth (users demo_store) NoItem = (NoItem, None) \<and>
   initializeAuth (users demo_store) BadJson = (BadJson, None) \<and>
   initializeAuth (users demo_store) (Json (JObj [(''userId'', JStr ''alice'')]))
     = (Json (JObj [(''userId'', JStr ''alice'')]), None) \<and>
   initializeAuth (users demo_store)
      (Json (JObj [(''userId'', JStr ''ghost''), (''token'', JStr ''t0''),
                   (''expiresAt'', JNum 5)]))
     = (NoItem, None) \<and>
   initializeAuth (users demo_store)
      (Json (JObj [(''userId'', JStr ''alice''), (''token'', JStr ''t1''),
                   (''expiresAt'', JNum 5)]))
     = (Json (JObj [(''userId'', JStr ''alice''), (''token'', JStr ''t1''),
                    (''expiresAt'', JNum 5)]),
        Some (strip_password alice))"
proof -
  let ?partial = "JObj [(''userId'', JStr ''alice'')]"
  let ?ghost = "JObj [(''userId'', JStr ''ghost''), (''token'', JStr ''t0''),
                      (''expiresAt'', JNum 5)]"
  let ?valid = "JObj [(''userId'', JStr ''alice''), (''token'', JStr ''t1''),
                      (''expiresAt'', JNum 5)]"
  note js = truthy_json_def truthy_field_def js_field_def
  have h2: "\<not> (truthy_json ?partial \<and> truthy_field ?partial ''token''
               \<and> truthy_field ?partial ''userId'')"
    by (simp add: js)
  have h3: "truthy_json ?ghost \<and> truthy_field ?ghost ''token'' \<and>
        js_field ?ghost ''userId'' = Some (JStr ''ghost'') \<and> truthy_json (JStr ''ghost'') \<and>
        (\<forall>u \<in> set (users demo_store). JStr (username u) \<noteq> JStr ''ghost'')"
    by (simp add: js demo_defs)
  have h4: "truthy_json ?valid \<and> truthy_field ?valid ''token'' \<and>
        js_field ?valid ''userId'' = Some (JStr ''alice'') \<and> ''alice'' \<noteq> [] \<and>
        List.find (named ''alice'') (users demo_store) = Some alice"
    by (simp add: js demo_defs named_def)
  from restore_session_outcomes [of NoItem "users demo_store"]
  have 1: "initializeAuth (users demo_store) NoItem = (NoItem, None)"
    by blast
  from restore_session_outcomes [of BadJson "users demo_store"]
  have 2: "initializeAuth (users demo_store) BadJson = (BadJson, None)"
    by blast
  from restore_session_outcomes [of "Json ?partial" "users demo_store"] h2
  have 3: "initializeAuth (users demo_store) (Json ?partial) = (Json ?partial, None)"
    by blast
  from restore_session_outcomes [of "Json ?ghost" "users demo_store"] h3
  have 4: "initializeAuth (users demo_store) (Json ?ghost) = (NoItem, None)"
    by blast
  from restore_session_outcomes [of "Json ?valid" "users demo_store"] h4
  have 5: "initializeAuth (users demo_store) (Json ?valid)
             = (Json ?valid, Some (strip_password alice))"
    by blast
  from 1 2 3 4 5 show ?thesis by blast
qed

text \<open>
  C8 as stated does not hold for the second half: an entry that does not parse, and a
  parsed entry that lacks the token, are failures after which the entry is still in
  storage. Only the \<open>catch\<close> of \<open>initializeAuth\<close> removes it, and \<open>storage.get\<close> turns
  a parse error into \<open>null\<close> before it can get there.
\<close>

theorem restore_keeps_bad_entry_counterexample:
  "initializeAuth (users demo_store) BadJson = (BadJson, None) \<and>
   storage_remove BadJson \<noteq> BadJson \<and>
   initializeAuth (users demo_store) (Json (JObj [(''userId'', JStr ''alice'')]))
     = (Json (JObj [(''userId'', JStr ''alice'')]), None)"
  by (simp add: initializeAuth_def storage_get_def storage_remove_def truthy_json_def
        truthy_field_def js_field_def)

section \<open>Banning from the dashboard\<close>

lemma dashboard_view_kept:
  assumes "view = reports st"
  shows "snd (handleBanUser z st view viewer banDuration now uname) =
           reports (fst (handleBanUser z st view viewer banDuration now uname))"
    and "snd (handleDeleteContent st view viewer rep) =
           reports (fst (handleDeleteContent st view viewer rep))"
    and "snd (handleDismissReport st view viewer reportId) =
           reports (fst (handleDismissReport st view viewer reportId))"
  using assms
  by (auto simp: handleBanUser_def handleDeleteContent_def handleDismissReport_def Let_def
           split: option.splits report_type.splits)

text \<open>
  C10. When an administrator bans a user from the dashboard, whose copy of the reports
  is the report table (as it is when the page is opened and after each of its
  handlers), the table afterwards is the old table without the reports whose
  \<open>reportedUser\<close> is the banned name: every such report is gone, whatever its type, and
  every report against another user is still there, in the old order. Products and
  messages are untouched, and the banned user's row, if there is one, has
  \<open>canLogin = false\<close> and the new expiry date (\<open>addDays\<close>: the present time moved
  by the chosen number of calendar days of the local clock).
\<close>

theorem dashboard_ban_clears_reports:
  assumes admin: "verifyAdmin viewer"
    and fresh: "view = reports st"
  shows "reports (fst (handleBanUser z st view viewer banDuration now uname)) =
           filter (\<lambda>r. reportedUser r \<noteq> uname) (reports st) \<and>
         (\<forall>r \<in> set (reports st). reportedUser r = uname \<longrightarrow>
            r \<notin> set (reports (fst (handleBanUser z st view viewer banDuration now uname)))) \<and>
         (\<forall>r \<in> set (reports st). reportedUser r \<noteq> uname \<longrightarrow>
            r \<in> set (reports (fst (handleBanUser z st view viewer banDuration now uname)))) \<and>
         products (fst (handleBanUser z st view viewer banDuration now uname)) = products st \<and>
         messages (fst (handleBanUser z st view viewer banDuration now uname)) = messages st \<and>
         (\<forall>u. List.find (named uname) (users st) = Some u \<longrightarrow>
            List.find (named uname)
              (users (fst (handleBanUser z st view viewer banDuration now uname))) =
            Some (u\<lparr>canLogin := False,
                    banExpiry := Some (ISO (addDays z now banDuration))\<rparr>))"
proof -
  let ?st' = "fst (handleBanUser z st view viewer banDuration now uname)"
  have tab: "reports ?st' = filter (\<lambda>r. reportedUser r \<noteq> uname) (reports st)"
    using admin fresh by (simp add: handleBanUser_def Let_def)
  have rest: "products ?st' = products st" "messages ?st' = messages st"
    using admin by (simp_all add: handleBanUser_def Let_def)
  have row: "List.find (named uname) (users ?st') =
      Some (u\<lparr>canLogin := False, banExpiry := Some (ISO (addDays z now banDuration))\<rparr>)"
    if u: "List.find (named uname) (users st) = Some u" for u
  proof -
    from find_named_index [OF u] obtain i where
      i: "findIndex (named uname) (users st) = Some i" "i < length (users st)"
         "users st ! i = u"
      by blast
    with admin show ?thesis
      by (simp add: handleBanUser_def Let_def find_update_same named_ban_update)
  qed
  from tab rest row show ?thesis by simp
qed

text \<open>\<open>root\<close> acts on the profile report against \<open>bob\<close>: the lamp report against \<open>bob\<close>
  goes as well, the chat report against \<open>alice\<close> stays.\<close>

theorem dashboard_ban_clears_reports_witness:
  "verifyAdmin (Some (strip_password root)) \<and>
   reports (fst (handleBanUser (fixed_zone 0) reported_store (reports reported_store)
                   (Some (strip_password root)) 7 1000 ''bob''))
     = [report_alice_chat] \<and>
   rtype report_bob_lamp = ProductReport \<and> rtype report_bob_profile = UserReport"
proof -
  have admin: "verifyAdmin (Some (strip_password root))"
    by (simp add: verifyAdmin_def strip_password_def root_def truthy_bool_def)
  have keep: "filter (\<lambda>r. reportedUser r \<noteq> ''bob'') (reports reported_store)
                = [report_alice_chat]"
    by (simp add: reported_store_def report_bob_profile_def report_bob_lamp_def
          report_alice_chat_def)
  from dashboard_ban_clears_reports [OF admin refl, of "fixed_zone 0" reported_store 7 1000
      "''bob''"] keep
  have "reports (fst (handleBanUser (fixed_zone 0) reported_store (reports reported_store)
                   (Some (strip_password root)) 7 1000 ''bob'')) = [report_alice_chat]"
    by simp
  with admin show ?thesis
    by (simp add: report_bob_lamp_def report_bob_profile_def)
qed



end
